theory Spec2Isabelle
  imports Main "HOL-Library.Word" "HOL-Library.Dlist"
begin

unbundle bit_operations_syntax

section \<open>The JVMTI breakpoint registry of ART (ti\_breakpoint.cc)\<close>

text \<open>
  The development embeds \<^verbatim>\<open>art/runtime/openjdkjvmti/ti_breakpoint.cc\<close>:
  \<^verbatim>\<open>Breakpoint::hash\<close>, \<^verbatim>\<open>BreakpointUtil::SetBreakpoint\<close>,
  \<^verbatim>\<open>BreakpointUtil::ClearBreakpoint\<close> and
  \<^verbatim>\<open>BreakpointUtil::RemoveBreakpointsInClass\<close>.
\<close>

subsection \<open>Machine types\<close>

text \<open>
  Pointers and \<^verbatim>\<open>size_t\<close> are 64-bit words (the LP64 build of the runtime); only
  \<^verbatim>\<open>Breakpoint::hash\<close> depends on that width. \<^verbatim>\<open>jlocation\<close> is \<^verbatim>\<open>jlong\<close>, a signed
  64-bit integer: the word is read with \<open>sint\<close> where the source compares it as a signed
  value. \<^verbatim>\<open>insns_size_in_code_units_\<close> is a \<^verbatim>\<open>uint32_t\<close>.
\<close>

type_synonym uintptr_t = "64 word"
type_synonym size_t = "64 word"
type_synonym uint32_t = "32 word"
type_synonym jlocation = "64 word"
type_synonym jmethodID = uintptr_t
type_synonym ArtMethod_ptr = uintptr_t
type_synonym Class_ptr = uintptr_t

definition nullptr :: uintptr_t where
  "nullptr = 0"

text \<open>
  The result codes the two entry points return: \<^verbatim>\<open>OK\<close> is \<^verbatim>\<open>JVMTI_ERROR_NONE\<close> and
  \<^verbatim>\<open>ERR(X)\<close> is \<^verbatim>\<open>JVMTI_ERROR_X\<close>.
\<close>

datatype jvmtiError = OK | INVALID_METHODID | INVALID_LOCATION | DUPLICATE | NOT_FOUND

subsection \<open>Breakpoint\<close>

text \<open>
  \<^verbatim>\<open>class Breakpoint\<close> holds the two fields \<^verbatim>\<open>method_\<close> and \<^verbatim>\<open>location_\<close>; two
  breakpoints are equal when both fields are, which is equality of the record. A
  trailing underscore of a source name is written as a prime. The
  constructor stores its two arguments. Its \<^verbatim>\<open>DCHECK\<close> on the access flags of the method
  is compiled out of release builds and does not change the constructed value; the
  access flags are not part of this model.
\<close>

record Breakpoint =
  method' :: ArtMethod_ptr
  location' :: jlocation

text \<open>
  \<^verbatim>\<open>Breakpoint::hash\<close> combines the two standard-library hashes with \<^verbatim>\<open>^\<close>. The
  specialisations \<^verbatim>\<open>std::hash<uintptr_t>\<close> and \<^verbatim>\<open>std::hash<jlocation>\<close> belong to the C++
  standard library and are parameters here.
\<close>

definition Breakpoint_hash ::
  "(uintptr_t \<Rightarrow> size_t) \<Rightarrow> (jlocation \<Rightarrow> size_t) \<Rightarrow> Breakpoint \<Rightarrow> size_t" where
  "Breakpoint_hash std_hash_uintptr_t std_hash_jlocation b =
     std_hash_uintptr_t (method' b) XOR std_hash_jlocation (location' b)"

subsection \<open>The runtime's method directory\<close>

text \<open>
  The functions of the runtime that the registry calls are declared outside the file and
  are taken as parameters: \<^verbatim>\<open>art::jni::DecodeArtMethod\<close>,
  \<^verbatim>\<open>ArtMethod::GetCanonicalMethod\<close>, the field read
  \<^verbatim>\<open>GetCodeItem()->insns_size_in_code_units_\<close> and \<^verbatim>\<open>ArtMethod::GetDeclaringClass\<close>.
  Every method of the model has a code item.
\<close>

record Runtime =
  DecodeArtMethod :: "jmethodID \<Rightarrow> ArtMethod_ptr"
  GetCanonicalMethod :: "ArtMethod_ptr \<Rightarrow> ArtMethod_ptr"
  insns_size_in_code_units' :: "ArtMethod_ptr \<Rightarrow> uint32_t"
  GetDeclaringClass :: "ArtMethod_ptr \<Rightarrow> Class_ptr"

subsection \<open>The environment and its unordered set\<close>

text \<open>
  \<^verbatim>\<open>env->breakpoints\<close> is a \<^verbatim>\<open>std::unordered_set<Breakpoint>\<close>. It is modelled as a
  duplicate-free sequence, the order in which a range-for visits the elements. Which
  order the container chooses is not specified; every theorem below is stated for all
  sequences, and compares contents through \<open>breakpoint_set\<close>.
  An iterator is modelled by the element it points to, and \<^verbatim>\<open>end()\<close> by \<open>None\<close>.
\<close>

type_synonym 'a unordered_set = "'a dlist"

definition unordered_set_insert :: "'a \<Rightarrow> 'a unordered_set \<Rightarrow> 'a unordered_set \<times> bool" where
  "unordered_set_insert x s =
     (if Dlist.member s x then (s, False) else (Dlist.insert x s, True))"

definition unordered_set_find :: "'a unordered_set \<Rightarrow> 'a \<Rightarrow> 'a option" where
  "unordered_set_find s x = (if Dlist.member s x then Some x else None)"

definition unordered_set_erase :: "'a \<Rightarrow> 'a unordered_set \<Rightarrow> 'a unordered_set" where
  "unordered_set_erase pos s = Dlist.remove pos s"

record ArtJvmTiEnv =
  breakpoints :: "Breakpoint unordered_set"

definition breakpoint_set :: "ArtJvmTiEnv \<Rightarrow> Breakpoint set" where
  "breakpoint_set env = set (list_of_dlist (breakpoints env))"

subsection \<open>SetBreakpoint and ClearBreakpoint\<close>

text \<open>
  Both functions return the error code and mutate \<^verbatim>\<open>env->breakpoints\<close>; the model
  returns the code together with the environment after the call.
\<close>

definition SetBreakpoint ::
  "Runtime \<Rightarrow> ArtJvmTiEnv \<Rightarrow> jmethodID \<Rightarrow> jlocation \<Rightarrow> jvmtiError \<times> ArtJvmTiEnv" where
  "SetBreakpoint rt env method location =
     (if method = nullptr then (INVALID_METHODID, env)
      else
        let art_method = GetCanonicalMethod rt (DecodeArtMethod rt method) in
        if sint location < 0 \<or>
           (ucast location :: uint32_t) \<ge> insns_size_in_code_units' rt art_method
        then (INVALID_LOCATION, env)
        else
          let res_pair =
                unordered_set_insert \<lparr>method' = art_method, location' = location\<rparr>
                  (breakpoints env) in
          if \<not> snd res_pair then (DUPLICATE, env\<lparr>breakpoints := fst res_pair\<rparr>)
          else (OK, env\<lparr>breakpoints := fst res_pair\<rparr>))"

definition ClearBreakpoint ::
  "Runtime \<Rightarrow> ArtJvmTiEnv \<Rightarrow> jmethodID \<Rightarrow> jlocation \<Rightarrow> jvmtiError \<times> ArtJvmTiEnv" where
  "ClearBreakpoint rt env method location =
     (if method = nullptr then (INVALID_METHODID, env)
      else
        case unordered_set_find (breakpoints env)
               \<lparr>method' = GetCanonicalMethod rt (DecodeArtMethod rt method),
                location' = location\<rparr> of
          None \<Rightarrow> (NOT_FOUND, env)
        | Some pos \<Rightarrow> (OK, env\<lparr>breakpoints := unordered_set_erase pos (breakpoints env)\<rparr>))"

subsection \<open>RemoveBreakpointsInClass\<close>

text \<open>
  The first loop visits the set and appends every breakpoint of the class to the vector
  \<^verbatim>\<open>to_remove\<close>. The second loop looks each collected breakpoint up and erases it. When
  the lookup returns \<^verbatim>\<open>end()\<close> the \<^verbatim>\<open>DCHECK\<close> fails in a debug build and
  \<^verbatim>\<open>erase(end())\<close> is undefined in a release build: that branch is the fault
  \<open>FindReturnedEnd\<close>.
\<close>

datatype fault = FindReturnedEnd

fun collect_to_remove ::
  "Runtime \<Rightarrow> Class_ptr \<Rightarrow> Breakpoint list \<Rightarrow> Breakpoint list \<Rightarrow> Breakpoint list" where
  "collect_to_remove rt klass [] to_remove = to_remove"
| "collect_to_remove rt klass (b # bs) to_remove =
     (if GetDeclaringClass rt (method' b) = klass
      then collect_to_remove rt klass bs (to_remove @ [b])
      else collect_to_remove rt klass bs to_remove)"

fun erase_to_remove ::
  "Breakpoint list \<Rightarrow> Breakpoint unordered_set \<Rightarrow> fault + Breakpoint unordered_set" where
  "erase_to_remove [] bps = Inr bps"
| "erase_to_remove (b # bs) bps =
     (case unordered_set_find bps b of
        None \<Rightarrow> Inl FindReturnedEnd
      | Some it \<Rightarrow> erase_to_remove bs (unordered_set_erase it bps))"

definition RemoveBreakpointsInClass ::
  "Runtime \<Rightarrow> ArtJvmTiEnv \<Rightarrow> Class_ptr \<Rightarrow> fault + ArtJvmTiEnv" where
  "RemoveBreakpointsInClass rt env klass =
     (let to_remove = collect_to_remove rt klass (list_of_dlist (breakpoints env)) [] in
      case erase_to_remove to_remove (breakpoints env) of
        Inl f \<Rightarrow> Inl f
      | Inr bps \<Rightarrow> Inr (env\<lparr>breakpoints := bps\<rparr>))"

subsection \<open>Canonical method, lookup\<close>

text \<open>
  The canonical method of a method identifier, as both entry points compute it.
\<close>

abbreviation canonical :: "Runtime \<Rightarrow> jmethodID \<Rightarrow> ArtMethod_ptr" where
  "canonical rt m \<equiv> GetCanonicalMethod rt (DecodeArtMethod rt m)"

text \<open>
  Modelled from the spec: the read-only query \<^verbatim>\<open>Lookup/Contains(method_ref, location)\<close>
  of the registry is not part of the file. Following the specification it re-resolves the
  method reference, as \<^verbatim>\<open>SetBreakpoint\<close> and \<^verbatim>\<open>ClearBreakpoint\<close> do, and answers
  whether the set holds a breakpoint at exactly that method and location.
\<close>

definition Contains :: "Runtime \<Rightarrow> ArtJvmTiEnv \<Rightarrow> jmethodID \<Rightarrow> jlocation \<Rightarrow> bool" where
  "Contains rt env method location =
     (method \<noteq> nullptr \<and>
      Dlist.member (breakpoints env)
        \<lparr>method' = GetCanonicalMethod rt (DecodeArtMethod rt method), location' = location\<rparr>)"

subsection \<open>A concrete runtime and environment\<close>

text \<open>
  Three methods for the concrete instances below: \<open>0x1000\<close> is declared by class
  \<open>0xC0\<close>; \<open>0x2000\<close> is a copied default method whose canonical method is
  \<open>0x1000\<close>; \<open>0x3000\<close> is declared by class \<open>0xD0\<close>. Every method has 16
  code units.
\<close>

definition example_runtime :: Runtime where
  "example_runtime =
     \<lparr>DecodeArtMethod = (\<lambda>m. m),
      GetCanonicalMethod = (\<lambda>m. if m = 0x2000 then 0x1000 else m),
      insns_size_in_code_units' = (\<lambda>m. 16),
      GetDeclaringClass = (\<lambda>m. if m = 0x1000 then 0xC0 else 0xD0)\<rparr>"

text \<open>
  The live methods of this runtime are the three above. The source never asks whether an
  identifier denotes a live method: it casts the identifier and reads through the
  pointer, and the functions of \<open>example_runtime\<close> answer for every pointer, as those
  reads do.
\<close>

definition example_live_method :: "jmethodID \<Rightarrow> bool" where
  "example_live_method m = (m = 0x1000 \<or> m = 0x2000 \<or> m = 0x3000)"

definition empty_env :: ArtJvmTiEnv where
  "empty_env = \<lparr>breakpoints = Dlist.empty\<rparr>"

definition example_env :: ArtJvmTiEnv where
  "example_env =
     \<lparr>breakpoints =
        Dlist.insert \<lparr>method' = 0x1000, location' = 5\<rparr>
          (Dlist.insert \<lparr>method' = 0x3000, location' = 3\<rparr> Dlist.empty)\<rparr>"

definition two_in_class_env :: ArtJvmTiEnv where
  "two_in_class_env =
     \<lparr>breakpoints =
        Dlist.insert \<lparr>method' = 0x3000, location' = 3\<rparr>
          (Dlist.insert \<lparr>method' = 0x1000, location' = 5\<rparr>
            (Dlist.insert \<lparr>method' = 0x3000, location' = 8\<rparr> Dlist.empty))\<rparr>"

section \<open>Facts about the container\<close>

lemma Dlist_member_set: "Dlist.member s x \<longleftrightarrow> x \<in> set (list_of_dlist s)"
  by (simp add: Dlist.member_def)

lemma find_Some_iff:
  "unordered_set_find s x = Some y \<longleftrightarrow> y = x \<and> x \<in> set (list_of_dlist s)"
  by (auto simp: unordered_set_find_def Dlist_member_set)

lemma set_erase:
  "set (list_of_dlist (unordered_set_erase x s)) = set (list_of_dlist s) - {x}"
  by (simp add: unordered_set_erase_def)

lemma length_erase:
  assumes "x \<in> set (list_of_dlist s)"
  shows "Dlist.length (unordered_set_erase x s) + 1 = Dlist.length s"
proof -
  have "0 < length (list_of_dlist s)"
    using assms by (rule length_pos_if_in_set)
  then show ?thesis
    using assms by (simp add: unordered_set_erase_def Dlist.length_def length_remove1)
qed

section \<open>One equation per outcome\<close>

lemma SetBreakpoint_eq:
  "SetBreakpoint rt env m l =
     (if m = nullptr then (INVALID_METHODID, env)
      else if sint l < 0 \<or> insns_size_in_code_units' rt (canonical rt m) \<le> ucast l
        then (INVALID_LOCATION, env)
      else if \<lparr>method' = canonical rt m, location' = l\<rparr> \<in> breakpoint_set env
        then (DUPLICATE, env)
      else (OK, env\<lparr>breakpoints :=
              Dlist.insert \<lparr>method' = canonical rt m, location' = l\<rparr> (breakpoints env)\<rparr>))"
  by (simp add: SetBreakpoint_def unordered_set_insert_def Dlist_member_set
      breakpoint_set_def Let_def)

lemma ClearBreakpoint_eq:
  "ClearBreakpoint rt env m l =
     (if m = nullptr then (INVALID_METHODID, env)
      else if \<lparr>method' = canonical rt m, location' = l\<rparr> \<in> breakpoint_set env
        then (OK, env\<lparr>breakpoints :=
                unordered_set_erase \<lparr>method' = canonical rt m, location' = l\<rparr>
                  (breakpoints env)\<rparr>)
      else (NOT_FOUND, env))"
  by (simp add: ClearBreakpoint_def unordered_set_find_def Dlist_member_set
      breakpoint_set_def)

lemma SetBreakpoint_INVALID_LOCATION_iff:
  "fst (SetBreakpoint rt env m l) = INVALID_LOCATION \<longleftrightarrow>
     m \<noteq> nullptr \<and>
     (sint l < 0 \<or> insns_size_in_code_units' rt (canonical rt m) \<le> ucast l)"
  by (simp add: SetBreakpoint_eq)

section \<open>The two loops\<close>

lemma collect_to_remove_filter:
  "collect_to_remove rt klass bs acc =
     acc @ filter (\<lambda>b. GetDeclaringClass rt (method' b) = klass) bs"
  by (induction bs arbitrary: acc) simp_all

lemma erase_to_remove_ok:
  "distinct xs \<Longrightarrow> set xs \<subseteq> set (list_of_dlist s) \<Longrightarrow>
   \<exists>s'. erase_to_remove xs s = Inr s' \<and>
        set (list_of_dlist s') = set (list_of_dlist s) - set xs \<and>
        Dlist.length s' + length xs = Dlist.length s"
proof (induction xs arbitrary: s)
  case Nil
  then show ?case by simp
next
  case (Cons x xs)
  from Cons.prems have x: "x \<in> set (list_of_dlist s)" and d: "distinct xs" and nx: "x \<notin> set xs"
    and sub: "set xs \<subseteq> set (list_of_dlist s)" by auto
  have sub': "set xs \<subseteq> set (list_of_dlist (unordered_set_erase x s))"
    using sub nx by (auto simp: set_erase)
  from Cons.IH [OF d sub'] obtain s' where
    s': "erase_to_remove xs (unordered_set_erase x s) = Inr s'"
    "set (list_of_dlist s') = set (list_of_dlist (unordered_set_erase x s)) - set xs"
    "Dlist.length s' + length xs = Dlist.length (unordered_set_erase x s)" by blast
  have "unordered_set_find s x = Some x" using x by (simp add: find_Some_iff)
  then have "erase_to_remove (x # xs) s = Inr s'" using s'(1) by simp
  moreover have "set (list_of_dlist s') = set (list_of_dlist s) - set (x # xs)"
    using s'(2) by (auto simp: set_erase)
  moreover have "Dlist.length s' + length (x # xs) = Dlist.length s"
    using s'(3) length_erase [OF x] by simp
  ultimately show ?case by blast
qed

lemma to_remove_distinct:
  "distinct (collect_to_remove rt klass (list_of_dlist s) [])"
  by (simp add: collect_to_remove_filter)

lemma to_remove_set:
  "set (collect_to_remove rt klass (list_of_dlist s) []) =
     {b \<in> set (list_of_dlist s). GetDeclaringClass rt (method' b) = klass}"
  by (simp add: collect_to_remove_filter)

lemma RemoveBreakpointsInClass_result:
  "\<exists>env'. RemoveBreakpointsInClass rt env klass = Inr env' \<and>
          breakpoint_set env' =
            {b \<in> breakpoint_set env. GetDeclaringClass rt (method' b) \<noteq> klass} \<and>
          Dlist.length (breakpoints env') +
            length (collect_to_remove rt klass (list_of_dlist (breakpoints env)) []) =
            Dlist.length (breakpoints env)"
proof -
  let ?tr = "collect_to_remove rt klass (list_of_dlist (breakpoints env)) []"
  have "set ?tr \<subseteq> set (list_of_dlist (breakpoints env))"
    by (auto simp: to_remove_set)
  from erase_to_remove_ok [OF to_remove_distinct this] obtain s' where
    s': "erase_to_remove ?tr (breakpoints env) = Inr s'"
    "set (list_of_dlist s') = set (list_of_dlist (breakpoints env)) - set ?tr"
    "Dlist.length s' + length ?tr = Dlist.length (breakpoints env)" by blast
  have "RemoveBreakpointsInClass rt env klass = Inr (env\<lparr>breakpoints := s'\<rparr>)"
    using s'(1) by (simp add: RemoveBreakpointsInClass_def)
  moreover have "breakpoint_set (env\<lparr>breakpoints := s'\<rparr>) =
      {b \<in> breakpoint_set env. GetDeclaringClass rt (method' b) \<noteq> klass}"
    using s'(2) by (auto simp: breakpoint_set_def to_remove_set)
  moreover have "Dlist.length (breakpoints (env\<lparr>breakpoints := s'\<rparr>)) + length ?tr =
      Dlist.length (breakpoints env)"
    using s'(3) by simp
  ultimately show ?thesis by blast
qed

lemma RemoveBreakpointsInClass_no_match:
  assumes "\<forall>b \<in> breakpoint_set env. GetDeclaringClass rt (method' b) \<noteq> klass"
  shows "RemoveBreakpointsInClass rt env klass = Inr env"
proof -
  have "filter (\<lambda>b. GetDeclaringClass rt (method' b) = klass) (list_of_dlist (breakpoints env)) = []"
    using assms by (simp add: breakpoint_set_def filter_empty_conv)
  then show ?thesis
    by (simp add: RemoveBreakpointsInClass_def collect_to_remove_filter)
qed

lemmas example_defs =
  example_runtime_def empty_env_def example_env_def two_in_class_env_def nullptr_def

section \<open>The claims\<close>

text \<open>
  C1. \<^verbatim>\<open>SetBreakpoint\<close> compares \<^verbatim>\<open>static_cast<uint32_t>(location)\<close> with the length
  of the bytecode, so only the low 32 bits of a non-negative location are checked. For a
  method of 16 code units the location \<open>2 ^ 32\<close>, which is not below 16, is not rejected
  with \<^verbatim>\<open>INVALID_LOCATION\<close>: the call returns \<^verbatim>\<open>OK\<close> and inserts the breakpoint.
\<close>

theorem SetBreakpoint_accepts_location_2_32:
  "insns_size_in_code_units' example_runtime (canonical example_runtime 0x1000) = 16 \<and>
   sint (0x100000000 :: jlocation) \<ge> 16 \<and>
   SetBreakpoint example_runtime empty_env 0x1000 0x100000000 =
     (OK, \<lparr>breakpoints =
            Dlist.insert \<lparr>method' = 0x1000, location' = 0x100000000\<rparr> Dlist.empty\<rparr>)"
  by (simp add: SetBreakpoint_def unordered_set_insert_def Dlist.member_def example_defs)

text \<open>
  C2, as stated, fails. With the identity as the standard-library hash of both
  components (what libc++ computes for an integer no wider than \<^verbatim>\<open>size_t\<close>) there is
  no pair \<open>(a, b)\<close> for which (method \<open>a\<close>, location \<open>b\<close>) and (method \<open>b\<close>,
  location \<open>a\<close>) hash differently.
\<close>

theorem Breakpoint_hash_swap_collides:
  "\<not> (\<exists>a b. Breakpoint_hash (\<lambda>x. x) (\<lambda>x. x) \<lparr>method' = a, location' = b\<rparr> \<noteq>
            Breakpoint_hash (\<lambda>x. x) (\<lambda>x. x) \<lparr>method' = b, location' = a\<rparr>)"
  by (simp add: Breakpoint_hash_def xor.commute)

text \<open>
  C2, amended. The hash of a breakpoint is the bitwise exclusive or of the hash of the
  method and the hash of the location. The combination is symmetric: exchanging the two
  components together with their hash functions gives the same hash value.
\<close>

theorem Breakpoint_hash_xor_symmetric:
  "Breakpoint_hash hm hl \<lparr>method' = a, location' = b\<rparr> = hm a XOR hl b \<and>
   Breakpoint_hash hm hl \<lparr>method' = a, location' = b\<rparr> =
     Breakpoint_hash hl hm \<lparr>method' = b, location' = a\<rparr>"
  by (simp add: Breakpoint_hash_def xor.commute)

text \<open>
  C3. Whenever \<^verbatim>\<open>SetBreakpoint\<close> or \<^verbatim>\<open>ClearBreakpoint\<close> returns an error, whichever
  it is, the environment after the call is the environment before it.
\<close>

theorem failed_call_leaves_set_unchanged:
  "(fst (SetBreakpoint rt env m l) \<noteq> OK \<longrightarrow> snd (SetBreakpoint rt env m l) = env) \<and>
   (fst (ClearBreakpoint rt env m l) \<noteq> OK \<longrightarrow> snd (ClearBreakpoint rt env m l) = env)"
  by (simp add: SetBreakpoint_eq ClearBreakpoint_eq)

theorem failed_call_leaves_set_unchanged_witness:
  "fst (SetBreakpoint example_runtime example_env 0x2000 5) = DUPLICATE \<and>
   snd (SetBreakpoint example_runtime example_env 0x2000 5) = example_env \<and>
   fst (ClearBreakpoint example_runtime example_env 0x3000 5) = NOT_FOUND \<and>
   snd (ClearBreakpoint example_runtime example_env 0x3000 5) = example_env"
  using failed_call_leaves_set_unchanged [of example_runtime example_env "0x2000" 5]
    failed_call_leaves_set_unchanged [of example_runtime example_env "0x3000" 5]
  by (simp add: SetBreakpoint_eq ClearBreakpoint_eq breakpoint_set_def example_defs)

text \<open>
  C4. After a successful \<^verbatim>\<open>SetBreakpoint\<close> of \<open>(m, l)\<close>, a second call with a method
  identifier of the same canonical method and the same location returns
  \<^verbatim>\<open>DUPLICATE\<close> and leaves the set, and so its size, unchanged. In general a call whose
  method resolves and whose location passes the bounds check returns \<^verbatim>\<open>DUPLICATE\<close>
  exactly when the breakpoint (canonical method, location) is already in the set, and no
  call returns \<^verbatim>\<open>DUPLICATE\<close> unless that breakpoint is in the set.
\<close>

theorem second_SetBreakpoint_is_DUPLICATE:
  "(SetBreakpoint rt env m l = (OK, env1) \<longrightarrow> m2 \<noteq> nullptr \<longrightarrow>
      canonical rt m2 = canonical rt m \<longrightarrow>
      SetBreakpoint rt env1 m2 l = (DUPLICATE, env1) \<and>
      Dlist.length (breakpoints (snd (SetBreakpoint rt env1 m2 l))) =
        Dlist.length (breakpoints env1)) \<and>
   (m \<noteq> nullptr \<longrightarrow>
      \<not> (sint l < 0 \<or> insns_size_in_code_units' rt (canonical rt m) \<le> ucast l) \<longrightarrow>
      (fst (SetBreakpoint rt env m l) = DUPLICATE \<longleftrightarrow>
         \<lparr>method' = canonical rt m, location' = l\<rparr> \<in> breakpoint_set env)) \<and>
   (fst (SetBreakpoint rt env m l) = DUPLICATE \<longrightarrow>
      \<lparr>method' = canonical rt m, location' = l\<rparr> \<in> breakpoint_set env)"
proof -
  have "SetBreakpoint rt env1 m2 l = (DUPLICATE, env1)"
    if ok: "SetBreakpoint rt env m l = (OK, env1)" and m2: "m2 \<noteq> nullptr"
      and c: "canonical rt m2 = canonical rt m"
  proof -
    from ok have valid: "\<not> (sint l < 0 \<or> insns_size_in_code_units' rt (canonical rt m) \<le> ucast l)"
      and env1: "env1 = env\<lparr>breakpoints :=
        Dlist.insert \<lparr>method' = canonical rt m, location' = l\<rparr> (breakpoints env)\<rparr>"
      by (auto simp: SetBreakpoint_eq split: if_splits)
    have "\<lparr>method' = canonical rt m, location' = l\<rparr> \<in> breakpoint_set env1"
      by (simp add: env1 breakpoint_set_def)
    with valid m2 c show ?thesis
      by (simp add: SetBreakpoint_eq)
  qed
  then show ?thesis
    by (simp add: SetBreakpoint_eq)
qed

theorem second_SetBreakpoint_is_DUPLICATE_witness:
  "SetBreakpoint example_runtime empty_env 0x2000 0 =
     (OK, \<lparr>breakpoints = Dlist.insert \<lparr>method' = 0x1000, location' = 0\<rparr> Dlist.empty\<rparr>) \<and>
   (0x1000 :: jmethodID) \<noteq> nullptr \<and>
   canonical example_runtime 0x1000 = canonical example_runtime 0x2000 \<and>
   SetBreakpoint example_runtime
     \<lparr>breakpoints = Dlist.insert \<lparr>method' = 0x1000, location' = 0\<rparr> Dlist.empty\<rparr> 0x1000 0 =
     (DUPLICATE, \<lparr>breakpoints = Dlist.insert \<lparr>method' = 0x1000, location' = 0\<rparr> Dlist.empty\<rparr>) \<and>
   \<not> (sint (5 :: jlocation) < 0 \<or>
      insns_size_in_code_units' example_runtime (canonical example_runtime 0x1000) \<le> ucast (5 :: jlocation)) \<and>
   \<lparr>method' = canonical example_runtime 0x1000, location' = 5\<rparr> \<in> breakpoint_set example_env \<and>
   fst (SetBreakpoint example_runtime example_env 0x1000 5) = DUPLICATE"
  using second_SetBreakpoint_is_DUPLICATE
    [of example_runtime empty_env "0x2000" 0
      "\<lparr>breakpoints = Dlist.insert \<lparr>method' = 0x1000, location' = 0\<rparr> Dlist.empty\<rparr>" "0x1000"]
    second_SetBreakpoint_is_DUPLICATE [of example_runtime example_env "0x1000" 5]
  by (simp add: SetBreakpoint_eq breakpoint_set_def example_defs)

text \<open>
  C5. When the set holds no breakpoint at (canonical method of \<open>m\<close>, \<open>l\<close>), a successful
  \<^verbatim>\<open>SetBreakpoint\<close> of \<open>(m, l)\<close> followed by \<^verbatim>\<open>ClearBreakpoint\<close> of \<open>(m, l)\<close>
  succeeds and leaves exactly the breakpoints the set held before the two calls;
  \<open>Contains\<close> of \<open>(m, l)\<close> is then false.
\<close>

theorem SetBreakpoint_then_ClearBreakpoint_restores:
  "\<lparr>method' = canonical rt m, location' = l\<rparr> \<notin> breakpoint_set env \<Longrightarrow>
   SetBreakpoint rt env m l = (OK, env1) \<Longrightarrow>
   \<exists>env2. ClearBreakpoint rt env1 m l = (OK, env2) \<and>
          breakpoint_set env2 = breakpoint_set env \<and>
          \<not> Contains rt env2 m l"
proof -
  let ?b = "\<lparr>method' = canonical rt m, location' = l\<rparr>"
  assume fresh: "?b \<notin> breakpoint_set env" and ok: "SetBreakpoint rt env m l = (OK, env1)"
  from ok have m: "m \<noteq> nullptr"
    and env1: "env1 = env\<lparr>breakpoints := Dlist.insert ?b (breakpoints env)\<rparr>"
    by (auto simp: SetBreakpoint_eq split: if_splits)
  let ?env2 = "env1\<lparr>breakpoints := unordered_set_erase ?b (breakpoints env1)\<rparr>"
  have in1: "?b \<in> breakpoint_set env1"
    by (simp add: env1 breakpoint_set_def)
  with m have "ClearBreakpoint rt env1 m l = (OK, ?env2)"
    by (simp add: ClearBreakpoint_eq)
  moreover have same: "breakpoint_set ?env2 = breakpoint_set env"
    using fresh by (auto simp: env1 breakpoint_set_def set_erase)
  moreover have "\<not> Contains rt ?env2 m l"
    using fresh same by (simp add: Contains_def Dlist_member_set breakpoint_set_def)
  ultimately show ?thesis by blast
qed

theorem SetBreakpoint_then_ClearBreakpoint_restores_witness:
  "\<lparr>method' = canonical example_runtime 0x1000, location' = 7\<rparr> \<notin> breakpoint_set example_env \<and>
   SetBreakpoint example_runtime example_env 0x1000 7 =
     (OK, example_env\<lparr>breakpoints :=
        Dlist.insert \<lparr>method' = 0x1000, location' = 7\<rparr> (breakpoints example_env)\<rparr>) \<and>
   (\<exists>env2. ClearBreakpoint example_runtime
             (example_env\<lparr>breakpoints :=
                Dlist.insert \<lparr>method' = 0x1000, location' = 7\<rparr> (breakpoints example_env)\<rparr>)
             0x1000 7 = (OK, env2) \<and>
           breakpoint_set env2 = breakpoint_set example_env \<and>
           \<not> Contains example_runtime env2 0x1000 7)"
proof -
  have fresh: "\<lparr>method' = canonical example_runtime 0x1000, location' = 7\<rparr>
      \<notin> breakpoint_set example_env"
    by (simp add: breakpoint_set_def example_defs)
  have ok: "SetBreakpoint example_runtime example_env 0x1000 7 =
     (OK, example_env\<lparr>breakpoints :=
        Dlist.insert \<lparr>method' = 0x1000, location' = 7\<rparr> (breakpoints example_env)\<rparr>)"
    by (simp add: SetBreakpoint_eq breakpoint_set_def example_defs)
  from SetBreakpoint_then_ClearBreakpoint_restores [OF fresh ok] fresh ok
  show ?thesis by blast
qed

text \<open>
  C6. \<^verbatim>\<open>RemoveBreakpointsInClass\<close> always completes. The set it leaves holds exactly the
  breakpoints whose method is not declared by the class; when no breakpoint's method is
  declared by the class, the environment is unchanged.
\<close>

theorem RemoveBreakpointsInClass_removes_the_class:
  "\<exists>env'. RemoveBreakpointsInClass rt env klass = Inr env' \<and>
          breakpoint_set env' =
            {b \<in> breakpoint_set env. GetDeclaringClass rt (method' b) \<noteq> klass} \<and>
          ((\<forall>b \<in> breakpoint_set env. GetDeclaringClass rt (method' b) \<noteq> klass) \<longrightarrow>
             env' = env)"
proof -
  from RemoveBreakpointsInClass_result [of rt env klass] obtain env' where
    r: "RemoveBreakpointsInClass rt env klass = Inr env'"
    and s: "breakpoint_set env' =
      {b \<in> breakpoint_set env. GetDeclaringClass rt (method' b) \<noteq> klass}"
    by blast
  have "env' = env" if "\<forall>b \<in> breakpoint_set env. GetDeclaringClass rt (method' b) \<noteq> klass"
    using RemoveBreakpointsInClass_no_match [OF that] r by simp
  with r s show ?thesis by blast
qed

theorem RemoveBreakpointsInClass_removes_the_class_witness:
  "RemoveBreakpointsInClass example_runtime example_env 0xC0 =
     Inr \<lparr>breakpoints = Dlist.insert \<lparr>method' = 0x3000, location' = 3\<rparr> Dlist.empty\<rparr> \<and>
   \<lparr>method' = 0x3000, location' = 3\<rparr> \<in>
     {b \<in> breakpoint_set example_env. GetDeclaringClass example_runtime (method' b) \<noteq> 0xC0} \<and>
   \<lparr>method' = 0x1000, location' = 5\<rparr> \<notin>
     {b \<in> breakpoint_set example_env. GetDeclaringClass example_runtime (method' b) \<noteq> 0xC0} \<and>
   {b \<in> breakpoint_set example_env. GetDeclaringClass example_runtime (method' b) = 0xEE} = {} \<and>
   RemoveBreakpointsInClass example_runtime example_env 0xEE = Inr example_env"
proof -
  have r: "RemoveBreakpointsInClass example_runtime example_env 0xC0 =
     Inr \<lparr>breakpoints = Dlist.insert \<lparr>method' = 0x3000, location' = 3\<rparr> Dlist.empty\<rparr>"
    by (simp add: RemoveBreakpointsInClass_def unordered_set_find_def unordered_set_erase_def
        Dlist.member_def dlist_eq_iff example_defs)
  have e: "{b \<in> breakpoint_set example_env.
      GetDeclaringClass example_runtime (method' b) = 0xEE} = {}"
    by (simp add: breakpoint_set_def example_defs)
  then have n: "\<forall>b \<in> breakpoint_set example_env.
      GetDeclaringClass example_runtime (method' b) \<noteq> 0xEE"
    by blast
  have s: "\<lparr>method' = 0x3000, location' = 3\<rparr> \<in>
     {b \<in> breakpoint_set example_env. GetDeclaringClass example_runtime (method' b) \<noteq> 0xC0} \<and>
   \<lparr>method' = 0x1000, location' = 5\<rparr> \<notin>
     {b \<in> breakpoint_set example_env. GetDeclaringClass example_runtime (method' b) \<noteq> 0xC0}"
    by (simp add: breakpoint_set_def example_defs)
  from RemoveBreakpointsInClass_removes_the_class [of example_runtime example_env "0xEE"] n
  have "RemoveBreakpointsInClass example_runtime example_env 0xEE = Inr example_env"
    by auto
  with r e s show ?thesis by blast
qed

text \<open>
  C7. For two method identifiers \<open>a\<close> and \<open>b\<close> that resolve to the same canonical
  method, a breakpoint set through \<open>a\<close> is cleared through \<open>b\<close>, and one set through
  \<open>b\<close> is cleared through \<open>a\<close>: the clearing call returns \<^verbatim>\<open>OK\<close> and the breakpoint
  is no longer in the set.
\<close>

theorem ClearBreakpoint_after_SetBreakpoint_via_alias:
  "a \<noteq> nullptr \<Longrightarrow> b \<noteq> nullptr \<Longrightarrow> canonical rt a = canonical rt b \<Longrightarrow>
   (SetBreakpoint rt env a l = (OK, env1) \<longrightarrow>
      fst (ClearBreakpoint rt env1 b l) = OK \<and>
      \<lparr>method' = canonical rt a, location' = l\<rparr> \<notin> breakpoint_set (snd (ClearBreakpoint rt env1 b l))) \<and>
   (SetBreakpoint rt env b l = (OK, env1) \<longrightarrow>
      fst (ClearBreakpoint rt env1 a l) = OK \<and>
      \<lparr>method' = canonical rt a, location' = l\<rparr> \<notin> breakpoint_set (snd (ClearBreakpoint rt env1 a l)))"
proof -
  assume a: "a \<noteq> nullptr" and b: "b \<noteq> nullptr" and c: "canonical rt a = canonical rt b"
  let ?bp = "\<lparr>method' = canonical rt a, location' = l\<rparr>"
  have after_a: "?bp \<in> breakpoint_set env1" if "SetBreakpoint rt env a l = (OK, env1)"
    using that by (auto simp: SetBreakpoint_eq breakpoint_set_def split: if_splits)
  have after_b: "?bp \<in> breakpoint_set env1" if "SetBreakpoint rt env b l = (OK, env1)"
    using that unfolding c by (auto simp: SetBreakpoint_eq breakpoint_set_def split: if_splits)
  have clear_a: "fst (ClearBreakpoint rt env1 a l) = OK \<and>
      ?bp \<notin> breakpoint_set (snd (ClearBreakpoint rt env1 a l))"
    if "?bp \<in> breakpoint_set env1"
    using that a by (simp add: ClearBreakpoint_eq breakpoint_set_def set_erase)
  have clear_b: "fst (ClearBreakpoint rt env1 b l) = OK \<and>
      ?bp \<notin> breakpoint_set (snd (ClearBreakpoint rt env1 b l))"
    if "?bp \<in> breakpoint_set env1"
    using that b unfolding c by (simp add: ClearBreakpoint_eq breakpoint_set_def set_erase)
  show ?thesis
    using after_a after_b clear_a clear_b by blast
qed

theorem ClearBreakpoint_after_SetBreakpoint_via_alias_witness:
  "(0x2000 :: jmethodID) \<noteq> nullptr \<and> (0x1000 :: jmethodID) \<noteq> nullptr \<and>
   (0x2000 :: jmethodID) \<noteq> 0x1000 \<and>
   canonical example_runtime 0x2000 = canonical example_runtime 0x1000 \<and>
   SetBreakpoint example_runtime empty_env 0x2000 4 =
     (OK, \<lparr>breakpoints = Dlist.insert \<lparr>method' = 0x1000, location' = 4\<rparr> Dlist.empty\<rparr>) \<and>
   SetBreakpoint example_runtime empty_env 0x1000 4 =
     (OK, \<lparr>breakpoints = Dlist.insert \<lparr>method' = 0x1000, location' = 4\<rparr> Dlist.empty\<rparr>) \<and>
   fst (ClearBreakpoint example_runtime
     \<lparr>breakpoints = Dlist.insert \<lparr>method' = 0x1000, location' = 4\<rparr> Dlist.empty\<rparr> 0x1000 4) = OK \<and>
   fst (ClearBreakpoint example_runtime
     \<lparr>breakpoints = Dlist.insert \<lparr>method' = 0x1000, location' = 4\<rparr> Dlist.empty\<rparr> 0x2000 4) = OK"
proof -
  have a: "(0x2000 :: jmethodID) \<noteq> nullptr" and b: "(0x1000 :: jmethodID) \<noteq> nullptr"
    and ne: "(0x2000 :: jmethodID) \<noteq> 0x1000"
    by (simp_all add: nullptr_def)
  have c: "canonical example_runtime 0x2000 = canonical example_runtime 0x1000"
    by (simp add: example_defs)
  have s1: "SetBreakpoint example_runtime empty_env 0x2000 4 =
     (OK, \<lparr>breakpoints = Dlist.insert \<lparr>method' = 0x1000, location' = 4\<rparr> Dlist.empty\<rparr>)"
    and s2: "SetBreakpoint example_runtime empty_env 0x1000 4 =
     (OK, \<lparr>breakpoints = Dlist.insert \<lparr>method' = 0x1000, location' = 4\<rparr> Dlist.empty\<rparr>)"
    by (simp_all add: SetBreakpoint_eq breakpoint_set_def example_defs)
  from ClearBreakpoint_after_SetBreakpoint_via_alias [OF a b c, of empty_env 4
      "\<lparr>breakpoints = Dlist.insert \<lparr>method' = 0x1000, location' = 4\<rparr> Dlist.empty\<rparr>"] s1 s2
  have "fst (ClearBreakpoint example_runtime
     \<lparr>breakpoints = Dlist.insert \<lparr>method' = 0x1000, location' = 4\<rparr> Dlist.empty\<rparr> 0x1000 4) = OK"
    and "fst (ClearBreakpoint example_runtime
     \<lparr>breakpoints = Dlist.insert \<lparr>method' = 0x1000, location' = 4\<rparr> Dlist.empty\<rparr> 0x2000 4) = OK"
    by simp_all
  with a b ne c s1 s2 show ?thesis by blast
qed

text \<open>
  C8, as stated, fails. The identifier \<open>0x4000\<close> is not null and does not denote a
  live method of the example runtime. Neither function answers it with
  \<^verbatim>\<open>INVALID_METHODID\<close>: \<^verbatim>\<open>SetBreakpoint\<close> goes on to the location check, returns
  \<^verbatim>\<open>OK\<close> and inserts a breakpoint for it, and \<^verbatim>\<open>ClearBreakpoint\<close> goes on to the
  lookup and returns \<^verbatim>\<open>NOT_FOUND\<close>.
\<close>

theorem dead_method_is_not_INVALID_METHODID:
  "\<not> example_live_method 0x4000 \<and>
   SetBreakpoint example_runtime empty_env 0x4000 0 =
     (OK, \<lparr>breakpoints = Dlist.insert \<lparr>method' = 0x4000, location' = 0\<rparr> Dlist.empty\<rparr>) \<and>
   ClearBreakpoint example_runtime empty_env 0x4000 0 = (NOT_FOUND, empty_env)"
  by (simp add: SetBreakpoint_eq ClearBreakpoint_eq breakpoint_set_def
      example_live_method_def example_defs)

text \<open>
  C8, amended. For the null method identifier \<^verbatim>\<open>SetBreakpoint\<close> and
  \<^verbatim>\<open>ClearBreakpoint\<close> return \<^verbatim>\<open>INVALID_METHODID\<close> whatever the location and the set
  are, and leave the environment as it was. The null identifier is the only one that
  gets that error: a non-null identifier, live or not, is never answered
  \<^verbatim>\<open>INVALID_METHODID\<close>.
\<close>

theorem null_method_is_INVALID_METHODID:
  "SetBreakpoint rt env nullptr l = (INVALID_METHODID, env) \<and>
   ClearBreakpoint rt env nullptr l = (INVALID_METHODID, env) \<and>
   (fst (SetBreakpoint rt env m l) = INVALID_METHODID \<longleftrightarrow> m = nullptr) \<and>
   (fst (ClearBreakpoint rt env m l) = INVALID_METHODID \<longleftrightarrow> m = nullptr)"
  by (simp add: SetBreakpoint_eq ClearBreakpoint_eq)

text \<open>
  C9. For a method identifier that resolves, \<^verbatim>\<open>ClearBreakpoint\<close> returns
  \<^verbatim>\<open>NOT_FOUND\<close> exactly when the breakpoint (canonical method, location) is not in the
  set; when it is, the call returns \<^verbatim>\<open>OK\<close>, removes that breakpoint and no other, and
  the set has one element less.
\<close>

theorem ClearBreakpoint_NOT_FOUND_iff:
  "m \<noteq> nullptr \<Longrightarrow>
   (fst (ClearBreakpoint rt env m l) = NOT_FOUND \<longleftrightarrow>
      \<lparr>method' = canonical rt m, location' = l\<rparr> \<notin> breakpoint_set env) \<and>
   (\<lparr>method' = canonical rt m, location' = l\<rparr> \<in> breakpoint_set env \<longrightarrow>
      (\<exists>env'. ClearBreakpoint rt env m l = (OK, env') \<and>
         breakpoint_set env' =
           breakpoint_set env - {\<lparr>method' = canonical rt m, location' = l\<rparr>} \<and>
         Dlist.length (breakpoints env') + 1 = Dlist.length (breakpoints env)))"
  using length_erase [of "\<lparr>method' = canonical rt m, location' = l\<rparr>" "breakpoints env"]
  by (simp add: ClearBreakpoint_eq breakpoint_set_def set_erase)

theorem ClearBreakpoint_NOT_FOUND_iff_witness:
  "(0x1000 :: jmethodID) \<noteq> nullptr \<and>
   \<lparr>method' = canonical example_runtime 0x1000, location' = 5\<rparr> \<in> breakpoint_set example_env \<and>
   fst (ClearBreakpoint example_runtime example_env 0x1000 5) \<noteq> NOT_FOUND \<and>
   (\<exists>env'. ClearBreakpoint example_runtime example_env 0x1000 5 = (OK, env') \<and>
      breakpoint_set env' = breakpoint_set example_env - {\<lparr>method' = 0x1000, location' = 5\<rparr>} \<and>
      Dlist.length (breakpoints env') + 1 = Dlist.length (breakpoints example_env)) \<and>
   \<lparr>method' = canonical example_runtime 0x1000, location' = 6\<rparr> \<notin> breakpoint_set example_env \<and>
   fst (ClearBreakpoint example_runtime example_env 0x1000 6) = NOT_FOUND"
proof -
  have m: "(0x1000 :: jmethodID) \<noteq> nullptr"
    by (simp add: nullptr_def)
  have c: "canonical example_runtime 0x1000 = 0x1000"
    by (simp add: example_defs)
  have i: "\<lparr>method' = canonical example_runtime 0x1000, location' = 5\<rparr> \<in> breakpoint_set example_env"
    and n: "\<lparr>method' = canonical example_runtime 0x1000, location' = 6\<rparr> \<notin> breakpoint_set example_env"
    by (simp_all add: breakpoint_set_def example_defs)
  from ClearBreakpoint_NOT_FOUND_iff [OF m, of example_runtime example_env 5]
    ClearBreakpoint_NOT_FOUND_iff [OF m, of example_runtime example_env 6] m i n
  show ?thesis unfolding c by blast
qed

text \<open>
  C10. In \<^verbatim>\<open>RemoveBreakpointsInClass\<close>, take any breakpoint \<open>b\<close> of the vector
  \<^verbatim>\<open>to_remove\<close> that the first loop collected, with \<open>pre\<close> the entries before it. The
  second loop erases all of \<open>pre\<close> without fault, the lookup of \<open>b\<close> in the set it
  then has finds \<open>b\<close>, and erasing \<open>b\<close> removes exactly one element. So the function
  never reaches the fault branch.
\<close>

theorem second_pass_lookup_succeeds:
  "(collect_to_remove rt klass (list_of_dlist (breakpoints env)) [] = pre @ b # post \<longrightarrow>
     (\<exists>s. erase_to_remove pre (breakpoints env) = Inr s \<and>
          unordered_set_find s b = Some b \<and>
          Dlist.length (unordered_set_erase b s) + 1 = Dlist.length s)) \<and>
   (\<forall>f. RemoveBreakpointsInClass rt env klass \<noteq> Inl f)"
proof -
  let ?tr = "collect_to_remove rt klass (list_of_dlist (breakpoints env)) []"
  have "\<exists>s. erase_to_remove pre (breakpoints env) = Inr s \<and>
          unordered_set_find s b = Some b \<and>
          Dlist.length (unordered_set_erase b s) + 1 = Dlist.length s"
    if split: "?tr = pre @ b # post"
  proof -
    have d: "distinct (pre @ b # post)"
      using to_remove_distinct [of rt klass "breakpoints env"] split by simp
    have sub: "set (pre @ b # post) \<subseteq> set (list_of_dlist (breakpoints env))"
      using to_remove_set [of rt klass "breakpoints env"] split by auto
    from d have dp: "distinct pre" and bp: "b \<notin> set pre" by simp_all
    from sub have sp: "set pre \<subseteq> set (list_of_dlist (breakpoints env))"
      and b: "b \<in> set (list_of_dlist (breakpoints env))" by simp_all
    from erase_to_remove_ok [OF dp sp] obtain s where
      s: "erase_to_remove pre (breakpoints env) = Inr s"
      "set (list_of_dlist s) = set (list_of_dlist (breakpoints env)) - set pre" by blast
    have bs: "b \<in> set (list_of_dlist s)"
      using s(2) b bp by simp
    then have "unordered_set_find s b = Some b"
      by (simp add: find_Some_iff)
    with s(1) length_erase [OF bs] show ?thesis by blast
  qed
  moreover have "\<forall>f. RemoveBreakpointsInClass rt env klass \<noteq> Inl f"
    using RemoveBreakpointsInClass_result [of rt env klass] by auto
  ultimately show ?thesis by blast
qed

theorem second_pass_lookup_succeeds_witness:
  "collect_to_remove example_runtime 0xD0 (list_of_dlist (breakpoints two_in_class_env)) [] =
     [\<lparr>method' = 0x3000, location' = 3\<rparr>] @ \<lparr>method' = 0x3000, location' = 8\<rparr> # [] \<and>
   (\<exists>s. erase_to_remove [\<lparr>method' = 0x3000, location' = 3\<rparr>] (breakpoints two_in_class_env) =
          Inr s \<and>
        unordered_set_find s \<lparr>method' = 0x3000, location' = 8\<rparr> =
          Some \<lparr>method' = 0x3000, location' = 8\<rparr> \<and>
        Dlist.length (unordered_set_erase \<lparr>method' = 0x3000, location' = 8\<rparr> s) + 1 =
          Dlist.length s) \<and>
   RemoveBreakpointsInClass example_runtime two_in_class_env 0xD0 \<noteq> Inl FindReturnedEnd"
proof -
  have c: "collect_to_remove example_runtime 0xD0
      (list_of_dlist (breakpoints two_in_class_env)) [] =
     [\<lparr>method' = 0x3000, location' = 3\<rparr>] @ \<lparr>method' = 0x3000, location' = 8\<rparr> # []"
    by (simp add: example_defs)
  from second_pass_lookup_succeeds
    [of example_runtime "0xD0" two_in_class_env "[\<lparr>method' = 0x3000, location' = 3\<rparr>]"
      "\<lparr>method' = 0x3000, location' = 8\<rparr>" "[]"] c
  show ?thesis by blast
qed

end
